theory Spec2Isabelle
  imports Complex_Main "HOL-Library.AList"
begin

section \<open>JavaScript strings\<close>

text \<open>
  A JavaScript string is a sequence of UTF-16 code units. The labels the component looks
  for are Chinese, so a code unit is a natural number here (Isabelle's \<open>char\<close> holds
  one byte only); \<open>asc\<close> embeds an ASCII literal.
\<close>

type_synonym jstring = "nat list"

definition asc :: "string \<Rightarrow> jstring" where
  "asc s = map of_char s"

section \<open>JavaScript numbers: the two cursors\<close>

text \<open>
  A cursor is a JavaScript number, an IEEE double. The values it takes here are integers
  or an infinity: \<open>to_double\<close> is the double nearest to an integer (ties to the even
  significand of 53 bits, an infinity from \<open>2 ^ 1024\<close> on), which is what reading the
  integer \<open>from_line\<close> of a JSON response gives and what an exact sum rounds to.
  Integers up to \<open>2 ^ 53\<close> in absolute value are doubles.
\<close>

datatype jsnum = Num int | PosInf | NegInf

fun bit_length :: "nat \<Rightarrow> nat" where
  "bit_length n = (if n = 0 then 0 else Suc (bit_length (n div 2)))"

declare bit_length.simps [simp del]

definition to_double :: "int \<Rightarrow> jsnum" where
  "to_double x =
     (let a = nat \<bar>x\<bar> in
      if a \<le> 2 ^ 53 then Num x
      else
        let q = 2 ^ (bit_length a - 53);
            d = a div q;
            r = a mod q;
            d' = (if 2 * r < q then d else if q < 2 * r then d + 1
                  else if even d then d else d + 1);
            v = d' * q
        in if 2 ^ 1024 \<le> v then (if 0 < x then PosInf else NegInf)
           else Num (if 0 < x then int v else - int v))"

text \<open>\<open>x + newLogs.length\<close>: the length of an array is below \<open>2 ^ 32\<close>.\<close>

fun js_add_length :: "jsnum \<Rightarrow> nat \<Rightarrow> jsnum" where
  "js_add_length (Num a) n = to_double (a + int n)"
| "js_add_length PosInf n = PosInf"
| "js_add_length NegInf n = NegInf"

section \<open>The report session: state of the component\<close>

text \<open>
  The \<open>ref\<close>s and the \<open>reactive\<close> object of \<open>Step4Report.vue\<close>, the two timer
  handles and the \<open>reportId\<close> prop. A JSON object key and a \<open>Set\<close> member that come
  from \<open>log.section_index\<close> are \<open>int option\<close>: \<open>None\<close> stands for the value an
  absent index gives (the key \<open>undefined\<close>, the member \<open>NaN\<close>). \<open>null\<close> and
  \<open>undefined\<close> are both \<open>None\<close>.
\<close>

record outline_section =
  sec_title :: jstring

record outline =
  o_title :: jstring
  o_summary :: jstring
  o_sections :: "outline_section list option"

record details =
  d_outline :: "outline option"
  d_content :: "jstring option"

record log_entry =
  timestamp :: int
  action :: jstring
  section_index :: "int option"
  details :: "details option"

record session =
  reportId :: "jstring option"
  agentLogs :: "log_entry list"
  consoleLogs :: "jstring list"
  agentLogLine :: jsnum
  consoleLogLine :: jsnum
  reportOutline :: "outline option"
  currentSectionIndex :: "int option"
  generatedSections :: "(int option \<times> jstring) list"
  expandedContent :: "int option set"
  expandedLogs :: "int set"
  collapsedSections :: "int set"
  isComplete :: bool
  startTime :: "int option"
  showRawResult :: "int \<rightharpoonup> bool"
  agentLogTimer :: bool
  consoleLogTimer :: bool
  emitted :: "(jstring \<times> jstring) list"

text \<open>The values the \<open>ref\<close> declarations give at setup.\<close>

definition initial_session :: "jstring option \<Rightarrow> session" where
  "initial_session rid =
     \<lparr> reportId = rid, agentLogs = [], consoleLogs = [], agentLogLine = Num 0,
       consoleLogLine = Num 0, reportOutline = None, currentSectionIndex = None,
       generatedSections = [], expandedContent = {}, expandedLogs = {},
       collapsedSections = {}, isComplete = False, startTime = None,
       showRawResult = Map.empty, agentLogTimer = False, consoleLogTimer = False,
       emitted = [] \<rparr>"

text \<open>Truthiness of a string (\<open>!props.reportId\<close>, \<open>log.details?.content\<close>).\<close>

definition truthy_str :: "jstring option \<Rightarrow> bool" where
  "truthy_str v = (case v of None \<Rightarrow> False | Some s \<Rightarrow> s \<noteq> [])"

text \<open>\<open>log.details?.outline\<close> and \<open>log.details?.content\<close>.\<close>

definition details_outline :: "log_entry \<Rightarrow> outline option" where
  "details_outline lg = (case details lg of None \<Rightarrow> None | Some d \<Rightarrow> d_outline d)"

definition details_content :: "log_entry \<Rightarrow> jstring option" where
  "details_content lg = (case details lg of None \<Rightarrow> None | Some d \<Rightarrow> d_content d)"

subsection \<open>Timers\<close>

definition stopPolling :: "session \<Rightarrow> session" where
  "stopPolling s = s\<lparr>agentLogTimer := False, consoleLogTimer := False\<rparr>"

subsection \<open>The reducer: the body of \<open>newLogs.forEach\<close> in fetchAgentLog\<close>

definition apply_entry :: "log_entry \<Rightarrow> session \<Rightarrow> session" where
  "apply_entry lg s0 =
    (let s1 = s0\<lparr>agentLogs := agentLogs s0 @ [lg]\<rparr>;
         s2 = (if action lg = asc ''planning_complete'' \<and> details_outline lg \<noteq> None
               then s1\<lparr>reportOutline := details_outline lg\<rparr> else s1);
         s3 = (if action lg = asc ''section_start''
               then s2\<lparr>currentSectionIndex := section_index lg\<rparr> else s2);
         s4 = (if action lg = asc ''section_complete''
               then (if truthy_str (details_content lg)
                     then s3\<lparr>generatedSections :=
                              AList.update (section_index lg) (the (details_content lg))
                                (generatedSections s3),
                            expandedContent :=
                              insert (map_option (\<lambda>i. i - 1) (section_index lg))
                                (expandedContent s3)\<rparr>
                     else s3)\<lparr>currentSectionIndex := None\<rparr>
               else s3);
         s5 = (if action lg = asc ''report_complete''
               then stopPolling
                      (s4\<lparr>isComplete := True,
                          emitted := emitted s4 @ [(asc ''update-status'', asc ''completed'')]\<rparr>)
               else s4);
         s6 = (if action lg = asc ''report_start''
               then s5\<lparr>startTime := Some (timestamp lg)\<rparr> else s5)
     in s6)"

definition apply_entries :: "log_entry list \<Rightarrow> session \<Rightarrow> session" where
  "apply_entries logs s = fold apply_entry logs s"

subsection \<open>Polling\<close>

text \<open>
  What one \<open>await getAgentLog(...)\<close> or \<open>await getConsoleLog(...)\<close> gives: a
  rejected promise, or a response \<open>{success, data?: {logs?, from_line}}\<close>, where
  \<open>from_line\<close> is the integer the response text carries.
\<close>

record 'a log_data =
  logs :: "'a list option"
  from_line :: int

datatype 'a poll_result = Transport_error | Response bool "'a log_data option"

text \<open>
  A fetch runs in two steps with the \<open>await\<close> between them. The first step reads the
  cursor and sends it as \<open>fromLine\<close> (nothing is sent without a report id). The second
  step runs when the request settles, on the session as it is by then: nothing keeps a
  timer tick from sending the next request while one is in flight.
\<close>

definition fetchAgentLog_request :: "session \<Rightarrow> jsnum option" where
  "fetchAgentLog_request s =
     (if \<not> truthy_str (reportId s) then None else Some (agentLogLine s))"

definition fetchAgentLog_resume :: "log_entry poll_result \<Rightarrow> session \<Rightarrow> session" where
  "fetchAgentLog_resume res s =
    (case res of
       Transport_error \<Rightarrow> s
     | Response success dat \<Rightarrow>
         (case dat of
            None \<Rightarrow> s
          | Some d \<Rightarrow>
              if success then
                (let newLogs = (case logs d of None \<Rightarrow> [] | Some l \<Rightarrow> l) in
                 if length newLogs > 0
                 then (apply_entries newLogs s)
                        \<lparr>agentLogLine :=
                           js_add_length (to_double (from_line d)) (length newLogs)\<rparr>
                 else s)
              else s))"

definition fetchConsoleLog_request :: "session \<Rightarrow> jsnum option" where
  "fetchConsoleLog_request s =
     (if \<not> truthy_str (reportId s) then None else Some (consoleLogLine s))"

text \<open>
  \<open>consoleLogs.value.push(...newLogs)\<close> passes every line as an argument of one call.
  An engine accepts \<open>max_spread\<close> arguments and throws a RangeError beyond; the
  \<open>catch\<close> swallows it, before anything is appended or assigned.
\<close>

definition fetchConsoleLog_resume ::
  "nat \<Rightarrow> jstring poll_result \<Rightarrow> session \<Rightarrow> session" where
  "fetchConsoleLog_resume max_spread res s =
    (case res of
       Transport_error \<Rightarrow> s
     | Response success dat \<Rightarrow>
         (case dat of
            None \<Rightarrow> s
          | Some d \<Rightarrow>
              if success then
                (let newLogs = (case logs d of None \<Rightarrow> [] | Some l \<Rightarrow> l) in
                 if length newLogs > 0
                 then (if max_spread < length newLogs then s
                       else s\<lparr>consoleLogs := consoleLogs s @ newLogs,
                              consoleLogLine :=
                                js_add_length (to_double (from_line d)) (length newLogs)\<rparr>)
                 else s)
              else s))"

text \<open>
  The life of one stream: a timer tick (or \<open>startPolling\<close>) calls the fetch, which
  sends a request; later one of the requests in flight settles. The cursors sent by the
  requests in flight are kept beside the session, oldest first; \<open>Settle k res\<close>
  settles the request at position \<open>k\<close> with \<open>res\<close>.
\<close>

datatype 'a poll_event = Tick | Settle nat "'a poll_result"

fun stream_step ::
  "(session \<Rightarrow> jsnum option) \<Rightarrow> ('a poll_result \<Rightarrow> session \<Rightarrow> session) \<Rightarrow>
   'a poll_event \<Rightarrow> session \<times> jsnum list \<Rightarrow> session \<times> jsnum list" where
  "stream_step request resume Tick (s, pending) =
     (case request s of None \<Rightarrow> (s, pending) | Some c \<Rightarrow> (s, pending @ [c]))"
| "stream_step request resume (Settle k res) (s, pending) =
     (if k < length pending then (resume res s, take k pending @ drop (Suc k) pending)
      else (s, pending))"

definition stream_run ::
  "(session \<Rightarrow> jsnum option) \<Rightarrow> ('a poll_result \<Rightarrow> session \<Rightarrow> session) \<Rightarrow>
   'a poll_event list \<Rightarrow> session \<times> jsnum list \<Rightarrow> session \<times> jsnum list" where
  "stream_run request resume evs cfg = fold (stream_step request resume) evs cfg"

definition agent_run ::
  "log_entry poll_event list \<Rightarrow> session \<times> jsnum list \<Rightarrow> session \<times> jsnum list" where
  "agent_run = stream_run fetchAgentLog_request fetchAgentLog_resume"

definition console_run ::
  "nat \<Rightarrow> jstring poll_event list \<Rightarrow> session \<times> jsnum list \<Rightarrow> session \<times> jsnum list" where
  "console_run max_spread = stream_run fetchConsoleLog_request (fetchConsoleLog_resume max_spread)"

text \<open>
  \<open>startPolling\<close> does nothing when a timer is already set; otherwise it issues both
  fetches (their responses arrive later, as calls of the two functions above) and sets
  both timers.
\<close>

definition startPolling :: "session \<Rightarrow> session" where
  "startPolling s =
     (if agentLogTimer s \<or> consoleLogTimer s then s
      else s\<lparr>agentLogTimer := True, consoleLogTimer := True\<rparr>)"

subsection \<open>Switching the report\<close>

text \<open>The callback of \<open>watch(() => props.reportId, ...)\<close>.\<close>

definition watch_reportId :: "jstring option \<Rightarrow> session \<Rightarrow> session" where
  "watch_reportId newId s =
     (if truthy_str newId
      then startPolling
             (s\<lparr>agentLogs := [], consoleLogs := [], agentLogLine := Num 0,
                consoleLogLine := Num 0,
                reportOutline := None, currentSectionIndex := None, generatedSections := [],
                expandedContent := {}, expandedLogs := {}, collapsedSections := {},
                isComplete := False, startTime := None\<rparr>)
      else s)"

text \<open>
  The parent changes the prop; the watcher runs when the value differs from the old one.
\<close>

definition set_reportId :: "jstring option \<Rightarrow> session \<Rightarrow> session" where
  "set_reportId newId s =
     (if reportId s = newId then s else watch_reportId newId (s\<lparr>reportId := newId\<rparr>))"

text \<open>
  A fresh session: setup with the prop already set; the watcher is \<open>immediate\<close>, then
  \<open>onMounted\<close> emits its log line and calls \<open>startPolling\<close>.
\<close>

definition onMounted :: "session \<Rightarrow> session" where
  "onMounted s =
     (if truthy_str (reportId s)
      then startPolling
             (s\<lparr>emitted := emitted s @
                  [(asc ''add-log'', asc ''Report Agent initialized: '' @ the (reportId s))]\<rparr>)
      else s)"

definition fresh_session :: "jstring option \<Rightarrow> session" where
  "fresh_session rid = onMounted (watch_reportId rid (initial_session rid))"

text \<open>The toggle of the raw/structured view of one tool result.\<close>

definition toggleRawResult :: "int \<Rightarrow> session \<Rightarrow> session" where
  "toggleRawResult ts s =
     s\<lparr>showRawResult := (showRawResult s)(ts \<mapsto> (case showRawResult s ts of
                                                    None \<Rightarrow> True | Some b \<Rightarrow> \<not> b))\<rparr>"

subsection \<open>Derived values\<close>

definition totalSections :: "session \<Rightarrow> nat" where
  "totalSections s =
     (case reportOutline s of
        None \<Rightarrow> 0
      | Some ol \<Rightarrow> (case o_sections ol of None \<Rightarrow> 0 | Some secs \<Rightarrow> length secs))"

definition completedSections :: "session \<Rightarrow> nat" where
  "completedSections s = length (generatedSections s)"

section \<open>Regular expressions\<close>

text \<open>
  The patterns of the component, as terms, and the backtracking matcher of the language
  over them. \<open>Str\<close> is a run of literal code units, \<open>Cls neg rs\<close> a class given by
  inclusive ranges (\<open>neg\<close> for \<open>[^...]\<close>), \<open>Dot\<close> the pattern \<open>.\<close>, \<open>Star g a\<close>
  and \<open>Opt g a\<close> the quantifiers \<open>*\<close> and \<open>?\<close> (greedy when \<open>g\<close>, lazy
  otherwise), \<open>Grp i a\<close> the capturing group number \<open>i\<close>, \<open>Look a\<close> the lookahead
  \<open>(?=a)\<close>, \<open>Bol\<close> and \<open>Eol\<close> the assertions \<open>^\<close> and \<open>$\<close>. No pattern of
  the component uses the flags \<open>i\<close>, \<open>s\<close>, \<open>u\<close> or \<open>y\<close> where it matters here.
\<close>

datatype rx =
    Str jstring
  | Cls bool "(nat \<times> nat) list"
  | Dot
  | Seq rx rx
  | Alt rx rx
  | Star bool rx
  | Opt bool rx
  | Grp nat rx
  | Look rx
  | Bol
  | Eol

abbreviation Plus :: "bool \<Rightarrow> rx \<Rightarrow> rx" where
  "Plus g a \<equiv> Seq a (Star g a)"

fun seqs :: "rx list \<Rightarrow> rx" where
  "seqs [] = Str []"
| "seqs [a] = a"
| "seqs (a # as) = Seq a (seqs as)"

text \<open>The classes \<open>\s\<close>, \<open>\d\<close>, \<open>\w\<close>, \<open>[\s\S]\<close>, one code unit, all but one.\<close>

definition ws_ranges :: "(nat \<times> nat) list" where
  "ws_ranges = [(9, 13), (32, 32), (160, 160), (0x1680, 0x1680), (0x2000, 0x200A),
                (0x2028, 0x2029), (0x202F, 0x202F), (0x205F, 0x205F), (0x3000, 0x3000),
                (0xFEFF, 0xFEFF)]"

definition ws :: rx where "ws = Cls False ws_ranges"
definition digit :: rx where "digit = Cls False [(48, 57)]"
definition word_char :: rx where "word_char = Cls False [(48, 57), (65, 90), (95, 95), (97, 122)]"
definition any_char :: rx where "any_char = Cls True []"
definition code_unit :: "nat \<Rightarrow> rx" where "code_unit x = Cls False [(x, x)]"
definition not_code_unit :: "nat \<Rightarrow> rx" where "not_code_unit x = Cls True [(x, x)]"

definition in_ranges :: "nat \<Rightarrow> (nat \<times> nat) list \<Rightarrow> bool" where
  "in_ranges x rs = list_ex (\<lambda>(lo, hi). lo \<le> x \<and> x \<le> hi) rs"

definition line_terminator :: "nat \<Rightarrow> bool" where
  "line_terminator x = (x = 10 \<or> x = 13 \<or> x = 0x2028 \<or> x = 0x2029)"

text \<open>The groups inside a pattern: a quantifier resets them before each iteration.\<close>

fun grps :: "rx \<Rightarrow> nat list" where
  "grps (Seq a b) = grps a @ grps b"
| "grps (Alt a b) = grps a @ grps b"
| "grps (Star g a) = grps a"
| "grps (Opt g a) = grps a"
| "grps (Grp i a) = i # grps a"
| "grps (Look a) = grps a"
| "grps a = []"

type_synonym caps = "nat \<rightharpoonup> jstring"
type_synonym mres = "nat \<times> jstring \<times> caps"

definition clear :: "nat list \<Rightarrow> caps \<Rightarrow> caps" where
  "clear gs c = fold (\<lambda>g c. c(g := None)) gs c"

text \<open>
  The matcher, in the continuation style of the language definition. Its state is the
  input still to read \<open>s\<close>, the number \<open>n\<close> of code units in it, the code unit
  \<open>p\<close> just before it (none at the start of the input) and the captures \<open>c\<close>;
  \<open>ml\<close> is the flag \<open>m\<close>. An iteration of a quantifier that reads nothing is
  refused, as the language has it.
\<close>

function (sequential) matcher ::
  "rx \<Rightarrow> bool \<Rightarrow> nat \<Rightarrow> nat option \<Rightarrow> jstring \<Rightarrow> caps \<Rightarrow>
   (nat \<Rightarrow> nat option \<Rightarrow> jstring \<Rightarrow> caps \<Rightarrow> mres option) \<Rightarrow> mres option" where
  "matcher (Str l) ml n p s c k =
     (if take (length l) s = l
      then k (n - length l) (if l = [] then p else Some (last l)) (drop (length l) s) c
      else None)"
| "matcher (Cls neg rs) ml n p s c k =
     (case s of [] \<Rightarrow> None
      | x # xs \<Rightarrow> if in_ranges x rs \<noteq> neg then k (n - 1) (Some x) xs c else None)"
| "matcher Dot ml n p s c k =
     (case s of [] \<Rightarrow> None
      | x # xs \<Rightarrow> if \<not> line_terminator x then k (n - 1) (Some x) xs c else None)"
| "matcher (Seq a b) ml n p s c k =
     matcher a ml n p s c (\<lambda>n' p' s' c'. matcher b ml n' p' s' c' k)"
| "matcher (Alt a b) ml n p s c k =
     (case matcher a ml n p s c k of Some r \<Rightarrow> Some r | None \<Rightarrow> matcher b ml n p s c k)"
| "matcher (Star g a) ml n p s c k =
     (if g
      then (case matcher a ml n p s (clear (grps a) c)
                   (\<lambda>n' p' s' c'. if n' < n then matcher (Star g a) ml n' p' s' c' k
                                   else None) of
              Some r \<Rightarrow> Some r
            | None \<Rightarrow> k n p s c)
      else (case k n p s c of
              Some r \<Rightarrow> Some r
            | None \<Rightarrow> matcher a ml n p s (clear (grps a) c)
                       (\<lambda>n' p' s' c'. if n' < n then matcher (Star g a) ml n' p' s' c' k
                                       else None)))"
| "matcher (Opt g a) ml n p s c k =
     (if g
      then (case matcher a ml n p s (clear (grps a) c)
                   (\<lambda>n' p' s' c'. if n' < n then k n' p' s' c' else None) of
              Some r \<Rightarrow> Some r
            | None \<Rightarrow> k n p s c)
      else (case k n p s c of
              Some r \<Rightarrow> Some r
            | None \<Rightarrow> matcher a ml n p s (clear (grps a) c)
                       (\<lambda>n' p' s' c'. if n' < n then k n' p' s' c' else None)))"
| "matcher (Grp i a) ml n p s c k =
     matcher a ml n p s c (\<lambda>n' p' s' c'. k n' p' s' (c'(i \<mapsto> take (n - n') s)))"
| "matcher (Look a) ml n p s c k =
     (case matcher a ml n p s c (\<lambda>n' p' s' c'. Some (n', s', c')) of
        None \<Rightarrow> None
      | Some (n', s', c') \<Rightarrow> k n p s c')"
| "matcher Bol ml n p s c k =
     (if (case p of None \<Rightarrow> True | Some x \<Rightarrow> ml \<and> line_terminator x) then k n p s c
      else None)"
| "matcher Eol ml n p s c k =
     (if (case s of [] \<Rightarrow> True | x # xs \<Rightarrow> ml \<and> line_terminator x) then k n p s c
      else None)"
  by pat_completeness auto
termination
  by (relation "measures [\<lambda>(r, ml, n, p, s, c, k). size r, \<lambda>(r, ml, n, p, s, c, k). n]") auto

text \<open>
  One attempt at the current position: what is left of the input, with its length, and
  the captures.
\<close>

definition rx_at :: "rx \<Rightarrow> bool \<Rightarrow> nat option \<Rightarrow> jstring \<Rightarrow> mres option" where
  "rx_at r ml p s = matcher r ml (length s) p s Map.empty (\<lambda>n' p' s' c'. Some (n', s', c'))"

text \<open>
  The leftmost match, position by position: the text before it, the matched text, the
  text after it and the captures.
\<close>

fun rx_search ::
  "rx \<Rightarrow> bool \<Rightarrow> nat option \<Rightarrow> jstring \<Rightarrow> jstring \<Rightarrow>
   (jstring \<times> jstring \<times> jstring \<times> caps) option" where
  "rx_search r ml p acc [] =
     (case rx_at r ml p [] of
        None \<Rightarrow> None
      | Some (n', s', c) \<Rightarrow> Some (rev acc, [], s', c))"
| "rx_search r ml p acc (x # xs) =
     (case rx_at r ml p (x # xs) of
        None \<Rightarrow> rx_search r ml (Some x) (x # acc) xs
      | Some (n', s', c) \<Rightarrow> Some (rev acc, take (length (x # xs) - n') (x # xs), s', c))"

text \<open>
  \<open>String.prototype.match\<close> with a pattern without the flag \<open>g\<close>: the matched text
  and the captures, or null.
\<close>

definition js_match :: "rx \<Rightarrow> bool \<Rightarrow> jstring \<Rightarrow> (jstring \<times> caps) option" where
  "js_match r ml s =
     (case rx_search r ml None [] s of None \<Rightarrow> None | Some (b, mt, a, c) \<Rightarrow> Some (mt, c))"

text \<open>
  The replacement text of \<open>replace\<close>: \<open>$$\<close>, \<open>$&\<close> and \<open>$1\<close> to \<open>$9\<close> (for a
  group the pattern has; a group that took no part gives the empty string). The
  replacement texts of the component use nothing else.
\<close>

fun js_subst :: "jstring \<Rightarrow> nat \<Rightarrow> jstring \<Rightarrow> caps \<Rightarrow> jstring" where
  "js_subst [] ng mt c = []"
| "js_subst [x] ng mt c = [x]"
| "js_subst (x # y # t) ng mt c =
     (if x = 36 \<and> y = 36 then 36 # js_subst t ng mt c
      else if x = 36 \<and> y = 38 then mt @ js_subst t ng mt c
      else if x = 36 \<and> 49 \<le> y \<and> y \<le> 57 \<and> y - 48 \<le> ng
      then (case c (y - 48) of None \<Rightarrow> [] | Some g \<Rightarrow> g) @ js_subst t ng mt c
      else x # js_subst (y # t) ng mt c)"

text \<open>\<open>replace\<close> with a pattern without the flag \<open>g\<close>: the first match only.\<close>

definition js_replace :: "rx \<Rightarrow> bool \<Rightarrow> jstring \<Rightarrow> jstring \<Rightarrow> jstring" where
  "js_replace r ml t s =
     (case rx_search r ml None [] s of
        None \<Rightarrow> s
      | Some (b, mt, a, c) \<Rightarrow> b @ js_subst t (length (grps r)) mt c @ a)"

text \<open>
  \<open>replace\<close> with the flag \<open>g\<close>: every match, each search starting where the last
  match ended (one code unit further after an empty match). The first argument of
  \<open>replace_scan\<close> counts the code units of the last match still to pass over.
\<close>

fun replace_scan :: "rx \<Rightarrow> bool \<Rightarrow> jstring \<Rightarrow> nat \<Rightarrow> nat option \<Rightarrow> jstring \<Rightarrow> jstring" where
  "replace_scan r ml t (Suc j) p [] = []"
| "replace_scan r ml t (Suc j) p (x # xs) = replace_scan r ml t j (Some x) xs"
| "replace_scan r ml t 0 p [] =
     (case rx_at r ml p [] of
        None \<Rightarrow> []
      | Some (n', s', c) \<Rightarrow> js_subst t (length (grps r)) [] c)"
| "replace_scan r ml t 0 p (x # xs) =
     (case rx_at r ml p (x # xs) of
        None \<Rightarrow> x # replace_scan r ml t 0 (Some x) xs
      | Some (n', s', c) \<Rightarrow>
          js_subst t (length (grps r)) (take (length (x # xs) - n') (x # xs)) c @
          (if length (x # xs) - n' = 0 then x # replace_scan r ml t 0 (Some x) xs
           else replace_scan r ml t (length (x # xs) - n' - 1) (Some x) xs))"

definition js_replace_all :: "rx \<Rightarrow> bool \<Rightarrow> jstring \<Rightarrow> jstring \<Rightarrow> jstring" where
  "js_replace_all r ml t s = replace_scan r ml t 0 None s"

section \<open>The markdown renderer\<close>

text \<open>
  \<open>renderMarkdown\<close>, pass by pass in the order of the source; each pass is a
  \<open>replace\<close> with the flag \<open>g\<close> on the result of the pass before. The source is the
  same in both files.
\<close>

definition renderMarkdown :: "jstring \<Rightarrow> jstring" where
  "renderMarkdown content =
    (if content = [] then [] else
     let html = js_replace_all
           (seqs [Str (asc ''```''), Grp 1 (Star True word_char), Str [10],
                  Grp 2 (Star False any_char), Str (asc ''```'')]) False
           (asc ''<pre class=\"code-block\"><code>$2</code></pre>'') content;
         html = js_replace_all
           (seqs [Str (asc ''`''), Grp 1 (Plus True (not_code_unit 96)), Str (asc ''`'')]) False
           (asc ''<code class=\"inline-code\">$1</code>'') html;
         html = js_replace_all (seqs [Bol, Str (asc ''#### ''), Grp 1 (Plus True Dot), Eol]) True
           (asc ''<h5 class=\"md-h5\">$1</h5>'') html;
         html = js_replace_all (seqs [Bol, Str (asc ''### ''), Grp 1 (Plus True Dot), Eol]) True
           (asc ''<h4 class=\"md-h4\">$1</h4>'') html;
         html = js_replace_all (seqs [Bol, Str (asc ''## ''), Grp 1 (Plus True Dot), Eol]) True
           (asc ''<h3 class=\"md-h3\">$1</h3>'') html;
         html = js_replace_all (seqs [Bol, Str (asc ''# ''), Grp 1 (Plus True Dot), Eol]) True
           (asc ''<h2 class=\"md-h2\">$1</h2>'') html;
         html = js_replace_all (seqs [Bol, Str (asc ''> ''), Grp 1 (Plus True Dot), Eol]) True
           (asc ''<blockquote class=\"md-quote\">$1</blockquote>'') html;
         html = js_replace_all (seqs [Bol, Str (asc ''- ''), Grp 1 (Plus True Dot), Eol]) True
           (asc ''<li class=\"md-li\">$1</li>'') html;
         html = js_replace_all
           (seqs [Grp 1 (seqs [Str (asc ''<li class=\"md-li\">''), Star False any_char,
                               Str (asc ''</li>'')]),
                  Grp 2 (seqs [Star True ws, Str (asc ''<li'')])]) False
           (asc ''$1$2'') html;
         html = js_replace_all
           (Plus True (Grp 1 (seqs [Str (asc ''<li class=\"md-li\">''), Star True Dot,
                                    Str (asc ''</li>'')]))) False
           (asc ''<ul class=\"md-ul\">$&</ul>'') html;
         html = js_replace_all
           (seqs [Bol, Plus True digit, Str (asc ''. ''), Grp 1 (Plus True Dot), Eol]) True
           (asc ''<li class=\"md-oli\">$1</li>'') html;
         html = js_replace_all
           (Plus True (Grp 1 (seqs [Str (asc ''<li class=\"md-oli\">''), Star True Dot,
                                    Str (asc ''</li>'')]))) False
           (asc ''<ol class=\"md-ol\">$&</ol>'') html;
         html = js_replace_all
           (seqs [Str (asc ''**''), Grp 1 (Plus False Dot), Str (asc ''**'')]) False
           (asc ''<strong>$1</strong>'') html;
         html = js_replace_all
           (seqs [Str (asc ''*''), Grp 1 (Plus False Dot), Str (asc ''*'')]) False
           (asc ''<em>$1</em>'') html;
         html = js_replace_all
           (seqs [Str (asc ''_''), Grp 1 (Plus False Dot), Str (asc ''_'')]) False
           (asc ''<em>$1</em>'') html;
         html = js_replace_all (seqs [Bol, Str (asc ''---''), Eol]) True
           (asc ''<hr class=\"md-hr\">'') html;
         html = js_replace_all (Str [10, 10]) False (asc ''</p><p class=\"md-p\">'') html;
         html = js_replace_all (Str [10]) False (asc ''<br>'') html;
         html = asc ''<p class=\"md-p\">'' @ html @ asc ''</p>'';
         html = js_replace_all (Str (asc ''<p class=\"md-p\"></p>'')) False [] html;
         html = js_replace_all
           (seqs [Str (asc ''<p class=\"md-p\">''),
                  Grp 1 (seqs [Str (asc ''<h''), Cls False [(50, 53)]])]) False
           (asc ''$1'') html;
         html = js_replace_all
           (seqs [Grp 1 (seqs [Str (asc ''</h''), Cls False [(50, 53)], Str (asc ''>'')]),
                  Str (asc ''</p>'')]) False
           (asc ''$1'') html;
         html = js_replace_all
           (seqs [Str (asc ''<p class=\"md-p\">''),
                  Grp 1 (Alt (Str (asc ''<ul''))
                        (Alt (Str (asc ''<ol''))
                        (Alt (Str (asc ''<blockquote''))
                        (Alt (Str (asc ''<pre'')) (Str (asc ''<hr''))))))]) False
           (asc ''$1'') html;
         html = js_replace_all
           (seqs [Grp 1 (Alt (Str (asc ''</ul>''))
                        (Alt (Str (asc ''</ol>''))
                        (Alt (Str (asc ''</blockquote>'')) (Str (asc ''</pre>''))))),
                  Str (asc ''</p>'')]) False
           (asc ''$1'') html
     in html)"

text \<open>How often a text occurs in another, counted at every position.\<close>

fun occurrences :: "jstring \<Rightarrow> jstring \<Rightarrow> nat" where
  "occurrences sub [] = (if sub = [] then 1 else 0)"
| "occurrences sub (x # xs) =
     (if take (length sub) (x # xs) = sub then 1 else 0) + occurrences sub xs"

(*EXTRACTORS*)

section \<open>Vocabulary of the properties\<close>

text \<open>
  The outlines that the \<open>planning_complete\<close> entries of a stream carry, in arrival
  order.
\<close>

definition outline_writes :: "log_entry list \<Rightarrow> outline list" where
  "outline_writes es =
     concat (map (\<lambda>e. if action e = asc ''planning_complete''
                        then (case details_outline e of None \<Rightarrow> [] | Some ol \<Rightarrow> [ol])
                        else []) es)"

text \<open>
  For one poll: the number of entries it delivered (0 for a rejected promise, for
  \<open>success: false\<close> and for a response without \<open>data\<close>; on the console stream also
  0 for a batch beyond \<open>max_spread\<close>), and the \<open>from_line\<close> it reported.
\<close>

fun poll_count :: "'a poll_result \<Rightarrow> nat" where
  "poll_count Transport_error = 0"
| "poll_count (Response success None) = 0"
| "poll_count (Response success (Some d)) =
     (if success then length (case logs d of None \<Rightarrow> [] | Some l \<Rightarrow> l) else 0)"

definition console_count :: "nat \<Rightarrow> 'a poll_result \<Rightarrow> nat" where
  "console_count max_spread r = (if max_spread < poll_count r then 0 else poll_count r)"

fun poll_from :: "'a poll_result \<Rightarrow> int option" where
  "poll_from Transport_error = None"
| "poll_from (Response success None) = None"
| "poll_from (Response success (Some d)) = Some (from_line d)"

text \<open>The entries that the polls settled in a run delivered, all together.\<close>

fun delivered :: "('a poll_result \<Rightarrow> nat) \<Rightarrow> 'a poll_event list \<Rightarrow> nat" where
  "delivered cnt [] = 0"
| "delivered cnt (Tick # evs) = delivered cnt evs"
| "delivered cnt (Settle k res # evs) = cnt res + delivered cnt evs"

text \<open>
  A run is in step when its polls do not overlap (a request is sent only while none is in
  flight, and what settles is a request in flight) and every poll that delivers entries
  reports as \<open>from_line\<close> the cursor that was sent with its request.
\<close>

fun in_step ::
  "(session \<Rightarrow> jsnum option) \<Rightarrow> ('a poll_result \<Rightarrow> session \<Rightarrow> session) \<Rightarrow>
   ('a poll_result \<Rightarrow> nat) \<Rightarrow> 'a poll_event list \<Rightarrow> session \<times> jsnum list \<Rightarrow> bool" where
  "in_step request resume cnt [] cfg = True"
| "in_step request resume cnt (Tick # evs) (s, pending) =
     (pending = [] \<and>
      in_step request resume cnt evs (stream_step request resume Tick (s, pending)))"
| "in_step request resume cnt (Settle k res # evs) (s, pending) =
     (k < length pending \<and>
      (0 < cnt res \<longrightarrow> map_option to_double (poll_from res) = Some (pending ! k)) \<and>
      in_step request resume cnt evs (stream_step request resume (Settle k res) (s, pending)))"

section \<open>Properties of the reducer, the pollers and the reset\<close>

lemma asc_eq_iff [simp]: "asc a = asc b \<longleftrightarrow> a = b"
  by (simp add: asc_def inj_map_eq_map inj_on_def)

lemma reportOutline_apply_entry:
  "reportOutline (apply_entry e s) =
     (if action e = asc ''planning_complete'' \<and> details_outline e \<noteq> None
      then details_outline e else reportOutline s)"
  by (auto simp: apply_entry_def Let_def stopPolling_def)

lemma apply_entries_snoc: "apply_entries (es @ [e]) s = apply_entry e (apply_entries es s)"
  by (simp add: apply_entries_def)

text \<open>
  Claim C1, as the code has it. The claim says that the outline is written once and that
  later \<open>planning_complete\<close> entries leave it alone. The reducer assigns
  \<open>reportOutline\<close> on every \<open>planning_complete\<close> entry whose \<open>details.outline\<close>
  is truthy, with no test of the current value: after folding any stream, the outline is
  the one carried by the last such entry, and it is the starting value when the stream has
  no such entry.
\<close>

theorem outline_last_write_wins:
  "reportOutline (apply_entries es s) =
     (if outline_writes es = [] then reportOutline s else Some (last (outline_writes es)))"
proof (induction es rule: rev_induct)
  case Nil
  show ?case by (simp add: apply_entries_def outline_writes_def)
next
  case (snoc e es)
  show ?case
    using snoc.IH
    by (auto simp: apply_entries_snoc reportOutline_apply_entry outline_writes_def)
qed

text \<open>
  Claim C1 as stated fails: after a first \<open>planning_complete\<close> entry has set the
  outline titled A, a second one carrying the outline titled B replaces it.
\<close>

theorem outline_first_write_wins_counterexample:
  "reportOutline (apply_entries
      [\<lparr>timestamp = 1, action = asc ''planning_complete'', section_index = None,
        details = Some \<lparr>d_outline = Some \<lparr>o_title = asc ''A'', o_summary = [], o_sections = None\<rparr>,
                        d_content = None\<rparr>\<rparr>]
      (initial_session (Some (asc ''r''))))
     = Some \<lparr>o_title = asc ''A'', o_summary = [], o_sections = None\<rparr>
   \<and> reportOutline (apply_entries
      [\<lparr>timestamp = 1, action = asc ''planning_complete'', section_index = None,
        details = Some \<lparr>d_outline = Some \<lparr>o_title = asc ''A'', o_summary = [], o_sections = None\<rparr>,
                        d_content = None\<rparr>\<rparr>,
       \<lparr>timestamp = 2, action = asc ''planning_complete'', section_index = None,
        details = Some \<lparr>d_outline = Some \<lparr>o_title = asc ''B'', o_summary = [], o_sections = None\<rparr>,
                        d_content = None\<rparr>\<rparr>]
      (initial_session (Some (asc ''r''))))
     = Some \<lparr>o_title = asc ''B'', o_summary = [], o_sections = None\<rparr>
   \<and> asc ''A'' \<noteq> asc ''B''"
  by (simp add: apply_entries_def apply_entry_def Let_def details_outline_def initial_session_def asc_def)

theorem outline_last_write_wins_witness:
  "reportOutline (apply_entries
      [\<lparr>timestamp = 1, action = asc ''planning_complete'', section_index = None,
        details = Some \<lparr>d_outline = Some \<lparr>o_title = asc ''A'', o_summary = [], o_sections = None\<rparr>,
                        d_content = None\<rparr>\<rparr>,
       \<lparr>timestamp = 2, action = asc ''section_start'', section_index = Some 1, details = None\<rparr>]
      (initial_session (Some (asc ''r''))))
     = Some \<lparr>o_title = asc ''A'', o_summary = [], o_sections = None\<rparr>"
  using outline_last_write_wins [of
      "[\<lparr>timestamp = 1, action = asc ''planning_complete'', section_index = None,
        details = Some \<lparr>d_outline = Some \<lparr>o_title = asc ''A'', o_summary = [], o_sections = None\<rparr>,
                        d_content = None\<rparr>\<rparr>,
       \<lparr>timestamp = 2, action = asc ''section_start'', section_index = Some 1, details = None\<rparr>]"
      "initial_session (Some (asc ''r''))"]
  by (simp add: outline_writes_def details_outline_def asc_def)

lemma reportId_apply_entry [simp]: "reportId (apply_entry e s) = reportId s"
  by (simp add: apply_entry_def Let_def stopPolling_def)

lemma reportId_apply_entries [simp]: "reportId (apply_entries es s) = reportId s"
  unfolding apply_entries_def by (induction es arbitrary: s) simp_all

lemma to_double_exact: "\<bar>x\<bar> \<le> 2 ^ 53 \<Longrightarrow> to_double x = Num x"
  by (simp add: to_double_def Let_def nat_le_iff)

lemma reportId_fetchAgentLog_resume [simp]: "reportId (fetchAgentLog_resume r s) = reportId s"
  by (simp add: fetchAgentLog_resume_def Let_def split: poll_result.splits option.splits)

lemma reportId_fetchConsoleLog_resume [simp]:
  "reportId (fetchConsoleLog_resume mx r s) = reportId s"
  by (simp add: fetchConsoleLog_resume_def Let_def split: poll_result.splits option.splits)

lemma agent_resume_delivers:
  "0 < poll_count r \<Longrightarrow>
   agentLogLine (fetchAgentLog_resume r s) =
     js_add_length (to_double (the (poll_from r))) (poll_count r)"
  by (cases r rule: poll_count.cases)
     (simp_all add: fetchAgentLog_resume_def Let_def split: if_splits)

lemma agent_resume_nothing: "poll_count r = 0 \<Longrightarrow> fetchAgentLog_resume r s = s"
  by (cases r rule: poll_count.cases)
     (auto simp: fetchAgentLog_resume_def Let_def split: if_splits)

lemma console_resume_delivers:
  "0 < console_count mx r \<Longrightarrow>
   consoleLogLine (fetchConsoleLog_resume mx r s) =
     js_add_length (to_double (the (poll_from r))) (console_count mx r)"
  by (cases r rule: poll_count.cases)
     (simp_all add: fetchConsoleLog_resume_def console_count_def Let_def split: if_splits)

lemma console_resume_nothing: "console_count mx r = 0 \<Longrightarrow> fetchConsoleLog_resume mx r s = s"
  by (cases r rule: poll_count.cases)
     (auto simp: fetchConsoleLog_resume_def console_count_def Let_def split: if_splits)

lemma agentLogLine_apply_entry [simp]: "agentLogLine (apply_entry e s) = agentLogLine s"
  by (simp add: apply_entry_def Let_def stopPolling_def)

lemma agentLogLine_apply_entries [simp]: "agentLogLine (apply_entries es s) = agentLogLine s"
  unfolding apply_entries_def by (induction es arbitrary: s) simp_all

lemma stream_run_Cons:
  "stream_run request resume (ev # evs) cfg =
     stream_run request resume evs (stream_step request resume ev cfg)"
  by (simp add: stream_run_def)

lemma stream_cursor_sum:
  assumes req: "\<And>s. ok s \<Longrightarrow> request s = Some (cur s)"
    and keep: "\<And>r s. ok s \<Longrightarrow> ok (resume r s)"
    and deliver: "\<And>r s. 0 < cnt r \<Longrightarrow>
        cur (resume r s) = js_add_length (to_double (the (poll_from r))) (cnt r)"
    and idle: "\<And>r s. cnt r = 0 \<Longrightarrow> cur (resume r s) = cur s"
  shows "ok s \<Longrightarrow> cur s = Num c \<Longrightarrow> 0 \<le> c \<Longrightarrow> pending = [] \<or> pending = [Num c] \<Longrightarrow>
    in_step request resume cnt evs (s, pending) \<Longrightarrow>
    c + int (delivered cnt evs) \<le> 2 ^ 53 \<Longrightarrow>
    cur (fst (stream_run request resume evs (s, pending))) = Num (c + int (delivered cnt evs))"
proof (induction evs arbitrary: s pending c)
  case Nil
  then show ?case by (simp add: stream_run_def)
next
  case (Cons ev evs)
  show ?case
  proof (cases ev)
    case Tick
    from Cons.prems(5) Tick have empty: "pending = []"
      and rest: "in_step request resume cnt evs (stream_step request resume Tick (s, pending))"
      by (auto simp del: stream_step.simps)
    have step: "stream_step request resume Tick (s, pending) = (s, [Num c])"
      using req [OF Cons.prems(1)] Cons.prems(2) empty by simp
    have "cur (fst (stream_run request resume evs (s, [Num c]))) =
          Num (c + int (delivered cnt evs))"
    proof (rule Cons.IH)
      show "in_step request resume cnt evs (s, [Num c])" using rest step by simp
      show "c + int (delivered cnt evs) \<le> 2 ^ 53" using Cons.prems(6) Tick by simp
    qed (use Cons.prems in simp_all)
    then show ?thesis unfolding Tick stream_run_Cons step by simp
  next
    case (Settle k r)
    from Cons.prems(5) Settle have k: "k < length pending"
      and echo: "0 < cnt r \<longrightarrow> map_option to_double (poll_from r) = Some (pending ! k)"
      and rest: "in_step request resume cnt evs
                   (stream_step request resume (Settle k r) (s, pending))"
      by (auto simp del: stream_step.simps)
    from k Cons.prems(4) have pend: "pending = [Num c]" and k0: "k = 0" by auto
    have step: "stream_step request resume (Settle k r) (s, pending) = (resume r s, [])"
      by (simp add: pend k0)
    have bound: "c + int (cnt r) + int (delivered cnt evs) \<le> 2 ^ 53"
      using Cons.prems(6) Settle by simp
    have cur': "cur (resume r s) = Num (c + int (cnt r))"
    proof (cases "0 < cnt r")
      case True
      with echo pend k0 have "map_option to_double (poll_from r) = Some (Num c)" by simp
      then have "to_double (the (poll_from r)) = Num c" by (cases "poll_from r") simp_all
      moreover have "\<bar>c + int (cnt r)\<bar> \<le> 2 ^ 53" using bound Cons.prems(3) by simp
      ultimately show ?thesis using deliver [OF True, of s] by (simp add: to_double_exact)
    next
      case False
      then have z: "cnt r = 0" by simp
      have "cur (resume r s) = cur s" by (rule idle [OF z])
      also have "\<dots> = Num (c + int (cnt r))" using z Cons.prems(2) by simp
      finally show ?thesis .
    qed
    have "cur (fst (stream_run request resume evs (resume r s, []))) =
          Num (c + int (cnt r) + int (delivered cnt evs))"
    proof (rule Cons.IH)
      show "in_step request resume cnt evs (resume r s, [])" using rest step by simp
      show "c + int (cnt r) + int (delivered cnt evs) \<le> 2 ^ 53" by (rule bound)
    qed (use keep [OF Cons.prems(1)] cur' Cons.prems(3) in simp_all)
    then show ?thesis unfolding Settle stream_run_Cons step by (simp add: add.assoc)
  qed
qed

lemma agent_cursor_sum:
  assumes "truthy_str (reportId s)" "agentLogLine s = Num 0"
    "in_step fetchAgentLog_request fetchAgentLog_resume poll_count evs (s, [])"
    "int (delivered poll_count evs) \<le> 2 ^ 53"
  shows "agentLogLine (fst (agent_run evs (s, []))) = Num (int (delivered poll_count evs))"
  using stream_cursor_sum [where ok = "\<lambda>s. truthy_str (reportId s)" and cur = agentLogLine
      and request = fetchAgentLog_request and resume = fetchAgentLog_resume
      and cnt = poll_count and s = s and c = 0 and pending = "[]" and evs = evs]
    assms
  by (simp add: agent_run_def fetchAgentLog_request_def agent_resume_delivers agent_resume_nothing)

lemma console_cursor_sum:
  assumes "truthy_str (reportId s)" "consoleLogLine s = Num 0"
    "in_step fetchConsoleLog_request (fetchConsoleLog_resume mx) (console_count mx) evs (s, [])"
    "int (delivered (console_count mx) evs) \<le> 2 ^ 53"
  shows "consoleLogLine (fst (console_run mx evs (s, []))) =
           Num (int (delivered (console_count mx) evs))"
  using stream_cursor_sum [where ok = "\<lambda>s. truthy_str (reportId s)" and cur = consoleLogLine
      and request = fetchConsoleLog_request and resume = "fetchConsoleLog_resume mx"
      and cnt = "console_count mx" and s = s and c = 0 and pending = "[]" and evs = evs]
    assms
  by (simp add: console_run_def fetchConsoleLog_request_def console_resume_delivers
      console_resume_nothing)

text \<open>
  Claim C4, as the code has it. Both fetchers assign \<open>from_line + newLogs.length\<close>
  to the cursor, where \<open>from_line\<close> is what the response reports, and they do so
  when the response arrives, whatever was sent since. With a report id set and the cursor
  at 0, for a run that is in step (polls do not overlap, and every poll that delivers
  entries reports as \<open>from_line\<close> the cursor sent with its request) whose delivered
  counts sum to at most \<open>2 ^ 53\<close>, the cursor after the run is the sum of the
  delivered counts; this holds for every run, so after every successful poll of it. In
  any state, a poll that delivers \<open>count > 0\<close> entries sets the cursor to
  \<open>from_line + count\<close> in double arithmetic, and a poll that delivers nothing
  (transport error, \<open>success: false\<close>, no data, no entries, a swallowed exception)
  leaves the cursor unchanged.
\<close>

theorem cursor_sum_in_step:
  "truthy_str (reportId s) \<Longrightarrow>
   (agentLogLine s = Num 0 \<and>
    in_step fetchAgentLog_request fetchAgentLog_resume poll_count evs (s, []) \<and>
    int (delivered poll_count evs) \<le> 2 ^ 53 \<longrightarrow>
      agentLogLine (fst (agent_run evs (s, []))) = Num (int (delivered poll_count evs))) \<and>
   (consoleLogLine s = Num 0 \<and>
    in_step fetchConsoleLog_request (fetchConsoleLog_resume mx) (console_count mx) cvs (s, []) \<and>
    int (delivered (console_count mx) cvs) \<le> 2 ^ 53 \<longrightarrow>
      consoleLogLine (fst (console_run mx cvs (s, []))) =
        Num (int (delivered (console_count mx) cvs))) \<and>
   (0 < poll_count r \<longrightarrow>
      agentLogLine (fetchAgentLog_resume r s) =
        js_add_length (to_double (the (poll_from r))) (poll_count r)) \<and>
   (0 < console_count mx q \<longrightarrow>
      consoleLogLine (fetchConsoleLog_resume mx q s) =
        js_add_length (to_double (the (poll_from q))) (console_count mx q)) \<and>
   (poll_count r = 0 \<longrightarrow> agentLogLine (fetchAgentLog_resume r s) = agentLogLine s) \<and>
   (console_count mx q = 0 \<longrightarrow>
      consoleLogLine (fetchConsoleLog_resume mx q s) = consoleLogLine s)"
  by (simp add: agent_cursor_sum console_cursor_sum agent_resume_delivers agent_resume_nothing
      console_resume_delivers console_resume_nothing)


text \<open>
  Claim C4 as stated fails in two ways. From cursor 0, one successful poll that delivers a
  single entry and reports \<open>from_line = 5\<close> leaves the cursor at 6, not at the count
  1. And two overlapping polls, both sent with cursor 0 and both answered with
  \<open>from_line = 0\<close> and one entry, leave the cursor at 1, not at the sum 2.
\<close>

theorem cursor_sum_counterexample:
  "agentLogLine (fresh_session (Some (asc ''r''))) = Num 0 \<and>
   agentLogLine (fst (agent_run
      [Tick,
       Settle 0 (Response True
         (Some \<lparr>logs = Some [\<lparr>timestamp = 1, action = asc ''report_start'',
                                  section_index = None, details = None\<rparr>],
                   from_line = 5\<rparr>))]
      (fresh_session (Some (asc ''r'')), []))) = Num 6 \<and>
   agentLogLine (fst (agent_run
      [Tick, Tick,
       Settle 0 (Response True
         (Some \<lparr>logs = Some [\<lparr>timestamp = 1, action = asc ''report_start'',
                                  section_index = None, details = None\<rparr>],
                   from_line = 0\<rparr>)),
       Settle 0 (Response True
         (Some \<lparr>logs = Some [\<lparr>timestamp = 1, action = asc ''report_start'',
                                  section_index = None, details = None\<rparr>],
                   from_line = 0\<rparr>))]
      (fresh_session (Some (asc ''r'')), []))) = Num 1"
  by (simp add: agent_run_def stream_run_def fetchAgentLog_request_def fetchAgentLog_resume_def
      fresh_session_def onMounted_def watch_reportId_def initial_session_def startPolling_def
      truthy_str_def to_double_def Let_def asc_def)

theorem cursor_sum_in_step_witness:
  "agentLogLine (fst (agent_run
      [Tick,
       Settle 0 (Response True
         (Some \<lparr>logs = Some [\<lparr>timestamp = 1, action = asc ''report_start'',
                                  section_index = None, details = None\<rparr>],
                   from_line = 0\<rparr>)),
       Tick, Settle 0 Transport_error,
       Tick, Settle 0 (Response False None),
       Tick,
       Settle 0 (Response True
         (Some \<lparr>logs = Some [\<lparr>timestamp = 2, action = asc ''planning_start'',
                                  section_index = None, details = None\<rparr>,
                                 \<lparr>timestamp = 3, action = asc ''section_start'',
                                  section_index = Some 1, details = None\<rparr>],
                   from_line = 1\<rparr>))]
      (fresh_session (Some (asc ''r'')), []))) = Num 3
   \<and> consoleLogLine (fst (console_run 100000
      [Tick,
       Settle 0 (Response True
         (Some \<lparr>logs = Some [asc ''INFO a'', asc ''INFO b''], from_line = 0\<rparr>)),
       Tick, Settle 0 Transport_error]
      (fresh_session (Some (asc ''r'')), []))) = Num 2
   \<and> agentLogLine (fetchAgentLog_resume
      (Response True
         (Some \<lparr>logs = Some [\<lparr>timestamp = 1, action = asc ''report_start'',
                                  section_index = None, details = None\<rparr>],
                   from_line = 5\<rparr>))
      (fresh_session (Some (asc ''r'')))) = Num 6
   \<and> consoleLogLine (fetchConsoleLog_resume 100000
      (Response True (Some \<lparr>logs = Some [asc ''INFO a''], from_line = 7\<rparr>))
      (fresh_session (Some (asc ''r'')))) = Num 8
   \<and> agentLogLine (fetchAgentLog_resume Transport_error (fresh_session (Some (asc ''r''))))
        = Num 0
   \<and> consoleLogLine (fetchConsoleLog_resume 100000 (Response False None)
        (fresh_session (Some (asc ''r'')))) = Num 0"
proof -
  let ?s = "fresh_session (Some (asc ''r''))"
  have t: "truthy_str (reportId ?s)"
    by (simp add: fresh_session_def onMounted_def watch_reportId_def initial_session_def
        startPolling_def truthy_str_def asc_def)
  show ?thesis
    using cursor_sum_in_step [OF t, of
      "[Tick,
       Settle 0 (Response True
         (Some \<lparr>logs = Some [\<lparr>timestamp = 1, action = asc ''report_start'',
                                  section_index = None, details = None\<rparr>],
                   from_line = 0\<rparr>)),
       Tick, Settle 0 Transport_error,
       Tick, Settle 0 (Response False None),
       Tick,
       Settle 0 (Response True
         (Some \<lparr>logs = Some [\<lparr>timestamp = 2, action = asc ''planning_start'',
                                  section_index = None, details = None\<rparr>,
                                 \<lparr>timestamp = 3, action = asc ''section_start'',
                                  section_index = Some 1, details = None\<rparr>],
                   from_line = 1\<rparr>))]"
      100000
      "[Tick,
       Settle 0 (Response True
         (Some \<lparr>logs = Some [asc ''INFO a'', asc ''INFO b''], from_line = 0\<rparr>)),
       Tick, Settle 0 Transport_error]"
      "Response True
         (Some \<lparr>logs = Some [\<lparr>timestamp = 1, action = asc ''report_start'',
                                  section_index = None, details = None\<rparr>],
                   from_line = 5\<rparr>)"
      "Response True (Some \<lparr>logs = Some [asc ''INFO a''], from_line = 7\<rparr>)"]
      cursor_sum_in_step [OF t, of "[]" 100000 "[]" Transport_error "Response False None"]
    by (simp add: fresh_session_def onMounted_def watch_reportId_def startPolling_def
        initial_session_def fetchAgentLog_request_def fetchAgentLog_resume_def
        fetchConsoleLog_request_def fetchConsoleLog_resume_def console_count_def
        agent_run_def console_run_def stream_run_def Let_def
        truthy_str_def to_double_exact asc_def)
qed

text \<open>
  Claim C8. An entry carries \<open>details.content\<close> when the test
  \<open>log.details?.content\<close> of the source succeeds: the content is there and is not the
  empty string. Folding such a \<open>section_complete\<close> entry stores the content under the
  entry's section index (all other keys keep their value), puts the zero-based index
  \<open>section_index - 1\<close> into the expanded set and clears the current section. For the
  stream of the concrete scenario, from any state, the current section is null and
  section 1 holds the text Body.
\<close>

theorem section_complete_writes_content:
  "action e = asc ''section_complete'' \<Longrightarrow> details_content e = Some c \<Longrightarrow> c \<noteq> [] \<Longrightarrow>
   map_of (generatedSections (apply_entry e s)) =
     (map_of (generatedSections s))(section_index e \<mapsto> c) \<and>
   map_option (\<lambda>i. i - 1) (section_index e) \<in> expandedContent (apply_entry e s) \<and>
   currentSectionIndex (apply_entry e s) = None \<and>
   currentSectionIndex (apply_entries
      [\<lparr>timestamp = t1, action = asc ''section_start'', section_index = Some 1, details = None\<rparr>,
       \<lparr>timestamp = t2, action = asc ''section_complete'', section_index = Some 1,
        details = Some \<lparr>d_outline = None, d_content = Some (asc ''Body'')\<rparr>\<rparr>] s) = None \<and>
   map_of (generatedSections (apply_entries
      [\<lparr>timestamp = t1, action = asc ''section_start'', section_index = Some 1, details = None\<rparr>,
       \<lparr>timestamp = t2, action = asc ''section_complete'', section_index = Some 1,
        details = Some \<lparr>d_outline = None, d_content = Some (asc ''Body'')\<rparr>\<rparr>] s)) (Some 1)
     = Some (asc ''Body'')"
  by (simp add: apply_entries_def apply_entry_def Let_def truthy_str_def stopPolling_def
      details_content_def update_conv' asc_def)

theorem section_complete_writes_content_witness:
  "map_of (generatedSections (apply_entry
      \<lparr>timestamp = 2, action = asc ''section_complete'', section_index = Some 1,
        details = Some \<lparr>d_outline = None, d_content = Some (asc ''Body'')\<rparr>\<rparr>
      (initial_session (Some (asc ''r''))))) (Some 1) = Some (asc ''Body'') \<and>
   Some 0 \<in> expandedContent (apply_entry
      \<lparr>timestamp = 2, action = asc ''section_complete'', section_index = Some 1,
        details = Some \<lparr>d_outline = None, d_content = Some (asc ''Body'')\<rparr>\<rparr>
      (initial_session (Some (asc ''r'')))) \<and>
   currentSectionIndex (apply_entry
      \<lparr>timestamp = 2, action = asc ''section_complete'', section_index = Some 1,
        details = Some \<lparr>d_outline = None, d_content = Some (asc ''Body'')\<rparr>\<rparr>
      (initial_session (Some (asc ''r'')))) = None"
  using section_complete_writes_content [of
      "\<lparr>timestamp = 2, action = asc ''section_complete'', section_index = Some 1,
        details = Some \<lparr>d_outline = None, d_content = Some (asc ''Body'')\<rparr>\<rparr>"
      "asc ''Body''" "initial_session (Some (asc ''r''))" 1 2]
  by (simp add: details_content_def asc_def initial_session_def)

text \<open>
  Claim C10. When the test \<open>log.details?.content\<close> fails (no details, no content, or
  the empty string), folding a \<open>section_complete\<close> entry still clears the current section
  and leaves the generated sections and the expanded set as they were.
\<close>

theorem section_complete_without_content:
  "action e = asc ''section_complete'' \<Longrightarrow> \<not> truthy_str (details_content e) \<Longrightarrow>
   currentSectionIndex (apply_entry e s) = None \<and>
   generatedSections (apply_entry e s) = generatedSections s \<and>
   expandedContent (apply_entry e s) = expandedContent s"
  by (simp add: apply_entry_def Let_def stopPolling_def)

theorem section_complete_without_content_witness:
  "currentSectionIndex (apply_entry
      \<lparr>timestamp = 2, action = asc ''section_complete'', section_index = Some 1, details = None\<rparr>
      ((initial_session (Some (asc ''r'')))\<lparr>currentSectionIndex := Some 1\<rparr>)) = None \<and>
   generatedSections (apply_entry
      \<lparr>timestamp = 2, action = asc ''section_complete'', section_index = Some 1, details = None\<rparr>
      ((initial_session (Some (asc ''r'')))\<lparr>currentSectionIndex := Some 1\<rparr>)) = [] \<and>
   expandedContent (apply_entry
      \<lparr>timestamp = 2, action = asc ''section_complete'', section_index = Some 1, details = None\<rparr>
      ((initial_session (Some (asc ''r'')))\<lparr>currentSectionIndex := Some 1\<rparr>)) = {}"
  using section_complete_without_content [of
      "\<lparr>timestamp = 2, action = asc ''section_complete'', section_index = Some 1, details = None\<rparr>"
      "(initial_session (Some (asc ''r'')))\<lparr>currentSectionIndex := Some 1\<rparr>"]
  by (simp add: details_content_def truthy_str_def initial_session_def)

lemma watch_reportId_resets:
  "truthy_str newId \<Longrightarrow>
   agentLogs (watch_reportId newId s) = [] \<and> consoleLogs (watch_reportId newId s) = [] \<and>
   agentLogLine (watch_reportId newId s) = Num 0 \<and>
   consoleLogLine (watch_reportId newId s) = Num 0 \<and>
   reportOutline (watch_reportId newId s) = None \<and>
   currentSectionIndex (watch_reportId newId s) = None \<and>
   generatedSections (watch_reportId newId s) = [] \<and>
   expandedContent (watch_reportId newId s) = {} \<and> expandedLogs (watch_reportId newId s) = {} \<and>
   collapsedSections (watch_reportId newId s) = {} \<and>
   isComplete (watch_reportId newId s) = False \<and> startTime (watch_reportId newId s) = None \<and>
   showRawResult (watch_reportId newId s) = showRawResult s"
  by (simp add: watch_reportId_def startPolling_def)

text \<open>
  Claim C9 is what the watcher is written for, and the code misses one collection. The
  watcher resets every \<open>ref\<close> (lemma \<open>watch_reportId_resets\<close>) but not the reactive
  object \<open>showRawResult\<close>, which is keyed by timestamp like \<open>expandedLogs\<close>. In a
  session for A the user toggles the raw view of the result with timestamp 7; after
  switching to B and back to A that toggle is still set, while a fresh session for A has
  none: the two states differ.
\<close>

theorem switch_back_keeps_showRawResult:
  "showRawResult (fresh_session (Some (asc ''A''))) 7 = None \<and>
   showRawResult
     (set_reportId (Some (asc ''A''))
       (set_reportId (Some (asc ''B''))
         (toggleRawResult 7 (fresh_session (Some (asc ''A'')))))) 7 = Some True \<and>
   set_reportId (Some (asc ''A''))
       (set_reportId (Some (asc ''B''))
         (toggleRawResult 7 (fresh_session (Some (asc ''A''))))) \<noteq>
   fresh_session (Some (asc ''A''))"
proof -
  have a: "showRawResult (fresh_session (Some (asc ''A''))) 7 = None"
    by (simp add: fresh_session_def onMounted_def watch_reportId_def startPolling_def
        initial_session_def truthy_str_def asc_def)
  have b: "showRawResult
     (set_reportId (Some (asc ''A''))
       (set_reportId (Some (asc ''B''))
         (toggleRawResult 7 (fresh_session (Some (asc ''A'')))))) 7 = Some True"
    by (simp add: set_reportId_def toggleRawResult_def fresh_session_def onMounted_def
        watch_reportId_def startPolling_def initial_session_def truthy_str_def asc_def)
  from a b show ?thesis by auto
qed

section \<open>Properties of the markdown renderer\<close>

lemmas rx_eval = js_replace_all_def rx_at_def in_ranges_def line_terminator_def clear_def
  asc_def ws_def ws_ranges_def digit_def word_char_def any_char_def code_unit_def
  not_code_unit_def

text \<open>
  Claim C3 holds for the heading and fails for the list. The line \<open>## Title\<close> renders
  as the heading element alone, with no paragraph tag around it. The two lines
  \<open>- item\<close> and \<open>- item2\<close> render as two list containers with a line break between
  them: the pass meant to join neighbouring items replaces each match by itself
  (\<open>$1$2\<close> puts the white space back), and in the wrapping pass \<open>.\<close> does not cross
  the line feed that is still there, so every item is wrapped on its own.
\<close>

theorem renderMarkdown_heading_and_list:
  "renderMarkdown (asc ''## Title'') = asc ''<h3 class=\"md-h3\">Title</h3>'' \<and>
   occurrences (asc ''<p'') (renderMarkdown (asc ''## Title'')) = 0 \<and>
   renderMarkdown (asc ''- item'' @ [10] @ asc ''- item2'') =
     asc ''<ul class=\"md-ul\"><li class=\"md-li\">item</li></ul><br><ul class=\"md-ul\"><li class=\"md-li\">item2</li></ul>'' \<and>
   occurrences (asc ''<ul'') (renderMarkdown (asc ''- item'' @ [10] @ asc ''- item2'')) = 2"
proof -
  have h: "renderMarkdown (asc ''## Title'') = asc ''<h3 class=\"md-h3\">Title</h3>''"
    by (simp add: renderMarkdown_def rx_eval)
  have l: "renderMarkdown (asc ''- item'' @ [10] @ asc ''- item2'') =
     asc ''<ul class=\"md-ul\"><li class=\"md-li\">item</li></ul><br><ul class=\"md-ul\"><li class=\"md-li\">item2</li></ul>''"
    by (simp add: renderMarkdown_def rx_eval)
  show ?thesis
    unfolding h l by (simp add: asc_def)
qed

(*MOREPROPS*)

end
